theory Spec2Isabelle
  imports Complex_Main
begin

section \<open>Rule-based credit scoring from payslip data\<close>

text \<open>
  A shallow embedding of \<^verbatim>\<open>calculate_credit_score\<close> of \<^verbatim>\<open>main.py\<close>.

  Conventions of the embedding:
  \<^item> an \<^verbatim>\<open>Optional[float]\<close> field is a \<open>real option\<close>; Python's \<^verbatim>\<open>None\<close> is \<open>None\<close>.
    Floats are read as the real numbers they denote: rounding, infinities and NaN are
    not part of the model, and a decimal literal such as \<^verbatim>\<open>0.85\<close> is the real \<open>0.85\<close>;
  \<^item> the running \<^verbatim>\<open>score\<close> is a Python \<^verbatim>\<open>int\<close>, hence an \<open>int\<close>, threaded through the
    rules in the order of the source;
  \<^item> an exception is a value: the result type is \<open>error + int\<close>, with \<open>Inl\<close> the error.
    Every \<^verbatim>\<open>/\<close> of the source is \<open>py_div\<close>, which fails on a zero divisor as Python does;
  \<^item> the body of the \<^verbatim>\<open>try\<close> block of Pillar 4 calls the standard library
    (\<^verbatim>\<open>datetime.fromisoformat\<close>, \<^verbatim>\<open>datetime.now\<close>); it is the parameter \<open>tenure_days\<close>, which maps
    the date portion of the string to the tenure in days, or to \<open>None\<close> where the library
    raises \<^verbatim>\<open>ValueError\<close> or \<^verbatim>\<open>TypeError\<close> (which the source catches and ignores).
\<close>

subsection \<open>Data model\<close>

record Indicators =
  net_to_gross_ratio :: "real option"
  deduction_ratio :: "real option"
  allowance_ratio :: "real option"
  overtime_ratio :: "real option"
  bonus_ratio :: "real option"
  loan_to_net_ratio :: "real option"
  estimated_tax_rate :: "real option"
  disposable_income :: "real option"
  savings_potential :: "real option"
  income_stability_flag :: "bool option"
  benefits_value_estimate :: "real option"
  probable_student_flag :: "bool option"

record Features =
  net_salary :: "real option"
  gross_salary :: "real option"
  basic_salary :: "real option"
  employment_start_date :: "string option"
  pension :: "real option"
  garnishments :: "real option"
  indicators :: Indicators

record PayslipData =
  success :: bool
  user_id :: string
  loan_id :: string
  features :: Features

datatype error = ZeroDivisionError | ValueError string

subsection \<open>Arithmetic and sequencing\<close>

definition py_div :: "real \<Rightarrow> real \<Rightarrow> error + real" where
  "py_div a b = (if b = 0 then Inl ZeroDivisionError else Inr (a / b))"

definition and_then :: "error + 'a \<Rightarrow> ('a \<Rightarrow> error + 'b) \<Rightarrow> error + 'b" where
  "and_then r k = (case r of Inl e \<Rightarrow> Inl e | Inr v \<Rightarrow> k v)"

subsection \<open>Pillar 1: income strength and stability\<close>

definition net_to_gross_points :: "real \<Rightarrow> int" where
  "net_to_gross_points r =
     (if r \<ge> 0.85 then 20
      else if r \<ge> 0.75 then 15
      else if r \<ge> 0.65 then 10
      else 5)"

definition income_ratio_rule :: "Features \<Rightarrow> int \<Rightarrow> error + int" where
  "income_ratio_rule fs score =
     (case net_salary fs of
        None \<Rightarrow> Inr score
      | Some n \<Rightarrow>
          (case gross_salary fs of
             None \<Rightarrow> Inr score
           | Some g \<Rightarrow>
               if g > 0
               then and_then (py_div n g) (\<lambda>r. Inr (score + net_to_gross_points r))
               else Inr score))"

definition composition_points :: "real \<Rightarrow> int" where
  "composition_points r =
     (if r \<ge> 0.8 then 10
      else if r \<ge> 0.6 then 5
      else 0)"

definition composition_rule :: "Features \<Rightarrow> int \<Rightarrow> error + int" where
  "composition_rule fs score =
     (case basic_salary fs of
        None \<Rightarrow> Inr score
      | Some b \<Rightarrow>
          (case gross_salary fs of
             None \<Rightarrow> Inr score
           | Some g \<Rightarrow>
               if g > 0
               then and_then (py_div b g) (\<lambda>r. Inr (score + composition_points r))
               else Inr score))"

definition stability_rule :: "Indicators \<Rightarrow> int \<Rightarrow> int" where
  "stability_rule ind score =
     (if income_stability_flag ind = Some True then score + 5 else score)"

subsection \<open>Pillar 2: existing debt burden\<close>

definition debt_burden_rule :: "Indicators \<Rightarrow> int \<Rightarrow> int" where
  "debt_burden_rule ind score =
     (case loan_to_net_ratio ind of
        None \<Rightarrow> score
      | Some l \<Rightarrow>
          if l \<le> 0.1 then score + 25
          else if l \<le> 0.25 then score + 15
          else if l \<le> 0.4 then score + 5
          else score)"

definition no_garnishments_rule :: "Features \<Rightarrow> int \<Rightarrow> int" where
  "no_garnishments_rule fs score =
     (if garnishments fs = None \<or> garnishments fs = Some 0 then score + 10 else score)"

subsection \<open>Pillar 3: financial discipline\<close>

definition disposable_points :: "real \<Rightarrow> int" where
  "disposable_points r =
     (if r > 0.4 then 15
      else if r \<ge> 0.25 then 10
      else if r \<ge> 0.15 then 5
      else 0)"

definition disposable_rule :: "Features \<Rightarrow> Indicators \<Rightarrow> int \<Rightarrow> error + int" where
  "disposable_rule fs ind score =
     (case disposable_income ind of
        None \<Rightarrow> Inr score
      | Some d \<Rightarrow>
          (case net_salary fs of
             None \<Rightarrow> Inr score
           | Some n \<Rightarrow>
               if n > 0
               then and_then (py_div d n) (\<lambda>r. Inr (score + disposable_points r))
               else Inr score))"

definition pension_rule :: "Features \<Rightarrow> int \<Rightarrow> error + int" where
  "pension_rule fs score =
     (case pension fs of
        None \<Rightarrow> Inr score
      | Some p \<Rightarrow>
          if p > 0
          then (case net_salary fs of
                  None \<Rightarrow> Inr score
                | Some n \<Rightarrow>
                    if n > 0
                    then and_then (py_div p n)
                           (\<lambda>r. Inr (if r \<ge> 0.05 then score + 5 else score))
                    else Inr score)
          else Inr score)"

subsection \<open>Pillar 4: employment stability\<close>

definition date_portion :: "string \<Rightarrow> string" where
  "date_portion s = takeWhile (\<lambda>c. c \<noteq> CHR ''T'') s"

definition tenure_rule :: "(string \<Rightarrow> int option) \<Rightarrow> Features \<Rightarrow> int \<Rightarrow> int" where
  "tenure_rule tenure_days fs score =
     (case employment_start_date fs of
        None \<Rightarrow> score
      | Some start_date_str \<Rightarrow>
          if start_date_str = [] then score
          else (case tenure_days (date_portion start_date_str) of
                  None \<Rightarrow> score
                | Some d \<Rightarrow>
                    if d > 3 * 365 then score + 10
                    else if d > 1 * 365 then score + 5
                    else score))"

subsection \<open>Loan affordability assessment\<close>

definition income_multiple_penalty :: "real \<Rightarrow> int \<Rightarrow> int" where
  "income_multiple_penalty loan_affordability_ratio score =
     (if loan_affordability_ratio > 8 then max (score - 30) 0
      else if loan_affordability_ratio > 5 then max (score - 20) 0
      else if loan_affordability_ratio > 3 then max (score - 10) 0
      else if loan_affordability_ratio > 2 then max (score - 5) 0
      else score)"

definition payment_to_income_penalty :: "real \<Rightarrow> int \<Rightarrow> int" where
  "payment_to_income_penalty payment_to_income_ratio score =
     (if payment_to_income_ratio > 0.5 then max (score - 20) 0
      else if payment_to_income_ratio > 0.35 then max (score - 10) 0
      else score)"

definition disposable_adequacy_penalty :: "real option \<Rightarrow> real \<Rightarrow> int \<Rightarrow> int" where
  "disposable_adequacy_penalty disposable monthly_payment_estimate score =
     (case disposable of
        None \<Rightarrow> score
      | Some d \<Rightarrow> if d < monthly_payment_estimate then max (score - 15) 0 else score)"

definition loan_affordability :: "Features \<Rightarrow> Indicators \<Rightarrow> real \<Rightarrow> int \<Rightarrow> error + int" where
  "loan_affordability fs ind requested_loan_amount score =
     (case net_salary fs of
        None \<Rightarrow> Inr score
      | Some n \<Rightarrow>
          if n > 0
          then
            (let annual_income = n * 12 in
             and_then (py_div requested_loan_amount annual_income)
               (\<lambda>loan_affordability_ratio.
                  let score1 = income_multiple_penalty loan_affordability_ratio score in
                  if requested_loan_amount \<ge> 100000
                  then
                    (let monthly_payment_estimate = requested_loan_amount * 0.01 in
                     and_then (py_div monthly_payment_estimate n)
                       (\<lambda>payment_to_income_ratio.
                          let score2 = payment_to_income_penalty payment_to_income_ratio score1 in
                          Inr (disposable_adequacy_penalty (disposable_income ind)
                                 monthly_payment_estimate score2)))
                  else Inr score1))
          else Inr score)"

text \<open>
  The value of the affordability block once its guard \<^verbatim>\<open>net_salary > 0\<close> holds and its
  divisions have gone through: the penalty steps in sequence (see \<open>loan_affordability_applied\<close>).
\<close>

definition penalised :: "real \<Rightarrow> real option \<Rightarrow> real \<Rightarrow> int \<Rightarrow> int" where
  "penalised n disposable loan s =
     (if loan \<ge> 100000
      then disposable_adequacy_penalty disposable (loan * 0.01)
             (payment_to_income_penalty (loan * 0.01 / n)
                (income_multiple_penalty (loan / (n * 12)) s))
      else income_multiple_penalty (loan / (n * 12)) s)"

subsection \<open>Red-flag caps and the critical-information check\<close>

definition garnishment_cap :: "Features \<Rightarrow> int \<Rightarrow> int" where
  "garnishment_cap fs score =
     (case garnishments fs of
        None \<Rightarrow> score
      | Some g \<Rightarrow> if g > 0 then min score 30 else score)"

definition debt_cap :: "Indicators \<Rightarrow> int \<Rightarrow> int" where
  "debt_cap ind score =
     (case loan_to_net_ratio ind of
        None \<Rightarrow> score
      | Some l \<Rightarrow> if l > 0.5 then min score 40 else score)"

definition missing_critical_data :: error where
  "missing_critical_data =
     ValueError ''Critical salary information is missing. Cannot calculate score.''"

definition critical_validation :: "Features \<Rightarrow> int \<Rightarrow> error + int" where
  "critical_validation fs score =
     (if net_salary fs = None \<or> gross_salary fs = None
      then Inl missing_critical_data
      else Inr (min score 100))"

subsection \<open>The scoring function\<close>

text \<open>
  The additive rules that follow the net-to-gross rule, in source order: salary
  composition, stability flag, debt burden, garnishments, disposable income, pension, tenure.
\<close>

definition remaining_pillars :: "(string \<Rightarrow> int option) \<Rightarrow> Features \<Rightarrow> int \<Rightarrow> error + int" where
  "remaining_pillars tenure_days fs score =
     and_then (composition_rule fs score) (\<lambda>score1.
     let score2 = stability_rule (indicators fs) score1;
         score3 = debt_burden_rule (indicators fs) score2;
         score4 = no_garnishments_rule fs score3 in
     and_then (disposable_rule fs (indicators fs) score4) (\<lambda>score5.
     and_then (pension_rule fs score5) (\<lambda>score6.
     Inr (tenure_rule tenure_days fs score6))))"

text \<open>
  The adjustment phase: affordability penalties, the two red-flag caps, then the
  critical-information check and the final \<^verbatim>\<open>min(score, 100)\<close>.
\<close>

definition adjust_and_validate :: "Features \<Rightarrow> real \<Rightarrow> int \<Rightarrow> error + int" where
  "adjust_and_validate fs requested_loan_amount score =
     and_then (loan_affordability fs (indicators fs) requested_loan_amount score) (\<lambda>score1.
     let score2 = garnishment_cap fs score1;
         score3 = debt_cap (indicators fs) score2 in
     critical_validation fs score3)"

text \<open>
  The body of the function from the salary-composition rule on, started at a given
  running score.
\<close>

definition score_from :: "(string \<Rightarrow> int option) \<Rightarrow> PayslipData \<Rightarrow> real \<Rightarrow> int \<Rightarrow> error + int" where
  "score_from tenure_days data requested_loan_amount score =
     and_then (remaining_pillars tenure_days (features data) score)
       (adjust_and_validate (features data) requested_loan_amount)"

definition calculate_credit_score :: "(string \<Rightarrow> int option) \<Rightarrow> PayslipData \<Rightarrow> real \<Rightarrow> error + int" where
  "calculate_credit_score tenure_days data requested_loan_amount =
     and_then (income_ratio_rule (features data) 0)
       (score_from tenure_days data requested_loan_amount)"

subsection \<open>Concrete inputs\<close>

definition no_indicators :: Indicators where
  "no_indicators =
     \<lparr> net_to_gross_ratio = None, deduction_ratio = None, allowance_ratio = None,
       overtime_ratio = None, bonus_ratio = None, loan_to_net_ratio = None,
       estimated_tax_rate = None, disposable_income = None, savings_potential = None,
       income_stability_flag = None, benefits_value_estimate = None,
       probable_student_flag = None \<rparr>"

definition salaries_only :: "real \<Rightarrow> real \<Rightarrow> Features" where
  "salaries_only n g =
     \<lparr> net_salary = Some n, gross_salary = Some g, basic_salary = None,
       employment_start_date = None, pension = None, garnishments = None,
       indicators = no_indicators \<rparr>"

definition payslip :: "Features \<Rightarrow> PayslipData" where
  "payslip fs = \<lparr> success = True, user_id = ''u1'', loan_id = ''l1'', features = fs \<rparr>"

definition no_tenure :: "string \<Rightarrow> int option" where
  "no_tenure s = None"


text \<open>
  A sample clock for concrete runs: the date portion \<^verbatim>\<open>2020-01-01\<close> lies 1461 days
  (four years) back, every other string fails to parse.
\<close>

definition sample_tenure :: "string \<Rightarrow> int option" where
  "sample_tenure s = (if s = ''2020-01-01'' then Some 1461 else None)"

definition scenario_a :: "string \<Rightarrow> Features" where
  "scenario_a start_date_str =
     \<lparr> net_salary = Some 5000, gross_salary = Some 6000, basic_salary = Some 5000,
       employment_start_date = Some start_date_str, pension = Some 300,
       garnishments = Some 0,
       indicators = no_indicators
         \<lparr> loan_to_net_ratio := Some 0.05, disposable_income := Some 2200 \<rparr> \<rparr>"

section \<open>Properties of the rules\<close>

subsection \<open>Sequencing and division\<close>

lemma and_then_Inr [simp]: "and_then (Inr v) k = k v"
  by (simp add: and_then_def)

lemma and_then_Inl [simp]: "and_then (Inl e) k = Inl e"
  by (simp add: and_then_def)

lemma py_div_nonzero: "b \<noteq> 0 \<Longrightarrow> py_div a b = Inr (a / b)"
  by (simp add: py_div_def)

subsection \<open>Every additive rule returns, and adds a bounded number of points\<close>

lemma net_to_gross_points_cases: "net_to_gross_points r \<in> {5, 10, 15, 20}"
  by (simp add: net_to_gross_points_def)

lemma net_to_gross_points_mono:
  "r1 \<le> r2 \<Longrightarrow> net_to_gross_points r1 \<le> net_to_gross_points r2"
  by (simp add: net_to_gross_points_def)

lemma income_ratio_rule_paid:
  "net_salary fs = Some n \<Longrightarrow> gross_salary fs = Some g \<Longrightarrow> 0 < g \<Longrightarrow>
   income_ratio_rule fs s = Inr (s + net_to_gross_points (n / g))"
  by (simp add: income_ratio_rule_def py_div_nonzero)

lemma income_ratio_rule_adds:
  "\<exists>p. 0 \<le> p \<and> p \<le> 20 \<and> (\<forall>s. income_ratio_rule fs s = Inr (s + p))"
proof (cases "\<exists>n g. net_salary fs = Some n \<and> gross_salary fs = Some g \<and> 0 < g")
  case True
  then obtain n g where "net_salary fs = Some n" "gross_salary fs = Some g" "0 < g"
    by blast
  then have "\<forall>s. income_ratio_rule fs s = Inr (s + net_to_gross_points (n / g))"
    by (simp add: income_ratio_rule_paid)
  moreover have "0 \<le> net_to_gross_points (n / g)" "net_to_gross_points (n / g) \<le> 20"
    by (simp_all add: net_to_gross_points_def)
  ultimately show ?thesis by blast
next
  case False
  then have "\<forall>s. income_ratio_rule fs s = Inr (s + 0)"
    by (auto simp add: income_ratio_rule_def split: option.split)
  then show ?thesis by (intro exI[of _ 0]) simp
qed

lemma composition_rule_adds:
  "\<exists>p. 0 \<le> p \<and> p \<le> 10 \<and> (\<forall>s. composition_rule fs s = Inr (s + p))"
proof (cases "\<exists>b g. basic_salary fs = Some b \<and> gross_salary fs = Some g \<and> 0 < g")
  case True
  then obtain b g where "basic_salary fs = Some b" "gross_salary fs = Some g" "0 < g"
    by blast
  then have "\<forall>s. composition_rule fs s = Inr (s + composition_points (b / g))"
    by (simp add: composition_rule_def py_div_nonzero)
  moreover have "0 \<le> composition_points (b / g)" "composition_points (b / g) \<le> 10"
    by (simp_all add: composition_points_def)
  ultimately show ?thesis by blast
next
  case False
  then have "\<forall>s. composition_rule fs s = Inr (s + 0)"
    by (auto simp add: composition_rule_def split: option.split)
  then show ?thesis by (intro exI[of _ 0]) simp
qed

lemma stability_rule_adds:
  "\<exists>p. 0 \<le> p \<and> p \<le> 5 \<and> (\<forall>s. stability_rule ind s = s + p)"
proof (cases "income_stability_flag ind = Some True")
  case True
  then show ?thesis by (intro exI[of _ 5]) (simp add: stability_rule_def)
next
  case False
  then show ?thesis by (intro exI[of _ 0]) (simp add: stability_rule_def)
qed

lemma debt_burden_rule_adds:
  "\<exists>p. 0 \<le> p \<and> p \<le> 25 \<and> (\<forall>s. debt_burden_rule ind s = s + p)"
proof (cases "loan_to_net_ratio ind")
  case None
  then show ?thesis by (intro exI[of _ 0]) (simp add: debt_burden_rule_def)
next
  case (Some l)
  let ?p = "if l \<le> 0.1 then 25 else if l \<le> 0.25 then 15 else if l \<le> 0.4 then 5 else (0::int)"
  from Some have "\<forall>s. debt_burden_rule ind s = s + ?p"
    by (simp add: debt_burden_rule_def)
  moreover have "0 \<le> ?p" "?p \<le> 25" by simp_all
  ultimately show ?thesis by blast
qed

lemma no_garnishments_rule_adds:
  "\<exists>p. 0 \<le> p \<and> p \<le> 10 \<and> (\<forall>s. no_garnishments_rule fs s = s + p)"
proof (cases "garnishments fs = None \<or> garnishments fs = Some 0")
  case True
  then show ?thesis by (intro exI[of _ 10]) (simp add: no_garnishments_rule_def)
next
  case False
  then show ?thesis by (intro exI[of _ 0]) (simp add: no_garnishments_rule_def)
qed

lemma disposable_rule_adds:
  "\<exists>p. 0 \<le> p \<and> p \<le> 15 \<and> (\<forall>s. disposable_rule fs ind s = Inr (s + p))"
proof (cases "\<exists>d n. disposable_income ind = Some d \<and> net_salary fs = Some n \<and> 0 < n")
  case True
  then obtain d n where "disposable_income ind = Some d" "net_salary fs = Some n" "0 < n"
    by blast
  then have "\<forall>s. disposable_rule fs ind s = Inr (s + disposable_points (d / n))"
    by (simp add: disposable_rule_def py_div_nonzero)
  moreover have "0 \<le> disposable_points (d / n)" "disposable_points (d / n) \<le> 15"
    by (simp_all add: disposable_points_def)
  ultimately show ?thesis by blast
next
  case False
  then have "\<forall>s. disposable_rule fs ind s = Inr (s + 0)"
    by (auto simp add: disposable_rule_def split: option.split)
  then show ?thesis by (intro exI[of _ 0]) simp
qed

lemma pension_rule_adds:
  "\<exists>p. 0 \<le> p \<and> p \<le> 5 \<and> (\<forall>s. pension_rule fs s = Inr (s + p))"
proof (cases "\<exists>q n. pension fs = Some q \<and> 0 < q \<and> net_salary fs = Some n \<and> 0 < n")
  case True
  then obtain q n where "pension fs = Some q" "0 < q" "net_salary fs = Some n" "0 < n"
    by blast
  then have "\<forall>s. pension_rule fs s = Inr (s + (if q / n \<ge> 0.05 then 5 else 0))"
    by (simp add: pension_rule_def py_div_nonzero)
  moreover have "0 \<le> (if q / n \<ge> 0.05 then 5 else (0::int))"
      "(if q / n \<ge> 0.05 then 5 else (0::int)) \<le> 5"
    by simp_all
  ultimately show ?thesis by blast
next
  case False
  then have "\<forall>s. pension_rule fs s = Inr (s + 0)"
    by (auto simp add: pension_rule_def split: option.split)
  then show ?thesis by (intro exI[of _ 0]) simp
qed

lemma tenure_points_exist:
  "\<exists>p::int. 0 \<le> p \<and> p \<le> 10 \<and>
       (\<forall>s. (if (d::int) > 3 * 365 then s + 10 else if d > 1 * 365 then s + 5 else s) = s + p)"
proof (cases "d > 3 * 365")
  case True
  then show ?thesis by (intro exI[of _ 10]) simp
next
  case False
  then show ?thesis
    by (cases "d > 1 * 365") (auto intro: exI[of _ 5] exI[of _ 0])
qed

lemma tenure_rule_adds:
  "\<exists>p. 0 \<le> p \<and> p \<le> 10 \<and> (\<forall>s. tenure_rule tenure_days fs s = s + p)"
proof (cases "\<exists>str d. employment_start_date fs = Some str \<and> str \<noteq> []
                 \<and> tenure_days (date_portion str) = Some (d::int)")
  case True
  then obtain str d where sd: "employment_start_date fs = Some str" "str \<noteq> []"
      "tenure_days (date_portion str) = Some d"
    by blast
  obtain p :: int where "0 \<le> p" "p \<le> 10"
      "\<forall>s. (if d > 3 * 365 then s + 10 else if d > 1 * 365 then s + 5 else s) = s + p"
    using tenure_points_exist [of d] by blast
  moreover from sd have "\<forall>s. tenure_rule tenure_days fs s
      = (if d > 3 * 365 then s + 10 else if d > 1 * 365 then s + 5 else s)"
    by (simp add: tenure_rule_def)
  ultimately show ?thesis by (intro exI[of _ p]) simp
next
  case False
  then have "\<forall>s. tenure_rule tenure_days fs s = s + 0"
    by (auto simp add: tenure_rule_def split: option.split)
  then show ?thesis by (intro exI[of _ 0]) simp
qed

lemma remaining_pillars_adds:
  "\<exists>p. 0 \<le> p \<and> p \<le> 80 \<and> (\<forall>s. remaining_pillars tenure_days fs s = Inr (s + p))"
proof -
  obtain p1 where 1: "0 \<le> p1" "p1 \<le> 10" "\<forall>s. composition_rule fs s = Inr (s + p1)"
    using composition_rule_adds by blast
  obtain p2 where 2: "0 \<le> p2" "p2 \<le> 5" "\<forall>s. stability_rule (indicators fs) s = s + p2"
    using stability_rule_adds by blast
  obtain p3 where 3: "0 \<le> p3" "p3 \<le> 25" "\<forall>s. debt_burden_rule (indicators fs) s = s + p3"
    using debt_burden_rule_adds by blast
  obtain p4 where 4: "0 \<le> p4" "p4 \<le> 10" "\<forall>s. no_garnishments_rule fs s = s + p4"
    using no_garnishments_rule_adds by blast
  obtain p5 where 5: "0 \<le> p5" "p5 \<le> 15"
      "\<forall>s. disposable_rule fs (indicators fs) s = Inr (s + p5)"
    using disposable_rule_adds by blast
  obtain p6 where 6: "0 \<le> p6" "p6 \<le> 5" "\<forall>s. pension_rule fs s = Inr (s + p6)"
    using pension_rule_adds by blast
  obtain p7 where 7: "0 \<le> p7" "p7 \<le> 10" "\<forall>s. tenure_rule tenure_days fs s = s + p7"
    using tenure_rule_adds by blast
  have "\<forall>s. remaining_pillars tenure_days fs s
          = Inr (s + (p1 + p2 + p3 + p4 + p5 + p6 + p7))"
    by (simp add: remaining_pillars_def Let_def 1 2 3 4 5 6 7)
  moreover have "0 \<le> p1 + p2 + p3 + p4 + p5 + p6 + p7"
      "p1 + p2 + p3 + p4 + p5 + p6 + p7 \<le> 80"
    using 1 2 3 4 5 6 7 by linarith+
  ultimately show ?thesis by blast
qed

subsection \<open>The penalties lower a score, never below zero, and keep the order of scores\<close>

lemma income_multiple_penalty_bounds:
  "min s 0 \<le> income_multiple_penalty r s \<and> income_multiple_penalty r s \<le> max s 0"
  by (auto simp add: income_multiple_penalty_def)

lemma payment_to_income_penalty_bounds:
  "min s 0 \<le> payment_to_income_penalty r s \<and> payment_to_income_penalty r s \<le> max s 0"
  by (auto simp add: payment_to_income_penalty_def)

lemma disposable_adequacy_penalty_bounds:
  "min s 0 \<le> disposable_adequacy_penalty d m s \<and> disposable_adequacy_penalty d m s \<le> max s 0"
  by (auto simp add: disposable_adequacy_penalty_def split: option.split)

lemma income_multiple_penalty_mono:
  "s \<le> s' \<Longrightarrow> income_multiple_penalty r s \<le> income_multiple_penalty r s'"
  by (auto simp add: income_multiple_penalty_def)

lemma payment_to_income_penalty_mono:
  "s \<le> s' \<Longrightarrow> payment_to_income_penalty r s \<le> payment_to_income_penalty r s'"
  by (auto simp add: payment_to_income_penalty_def)

lemma disposable_adequacy_penalty_mono:
  "s \<le> s' \<Longrightarrow> disposable_adequacy_penalty d m s \<le> disposable_adequacy_penalty d m s'"
  by (auto simp add: disposable_adequacy_penalty_def split: option.split)

lemma loan_affordability_applied:
  "net_salary fs = Some n \<Longrightarrow> 0 < n \<Longrightarrow>
   loan_affordability fs ind loan s = Inr (penalised n (disposable_income ind) loan s)"
  by (simp add: loan_affordability_def penalised_def py_div_nonzero Let_def)

lemma loan_affordability_skipped:
  "net_salary fs = None \<or> (\<exists>n. net_salary fs = Some n \<and> n \<le> 0) \<Longrightarrow>
   loan_affordability fs ind loan s = Inr s"
  by (auto simp add: loan_affordability_def)

lemma penalised_bounds:
  "min s 0 \<le> penalised n d loan s \<and> penalised n d loan s \<le> max s 0"
proof -
  let ?s1 = "income_multiple_penalty (loan / (n * 12)) s"
  let ?s2 = "payment_to_income_penalty (loan * 0.01 / n) ?s1"
  let ?s3 = "disposable_adequacy_penalty d (loan * 0.01) ?s2"
  have b1: "min s 0 \<le> ?s1" "?s1 \<le> max s 0"
    using income_multiple_penalty_bounds by blast+
  have b2: "min ?s1 0 \<le> ?s2" "?s2 \<le> max ?s1 0"
    using payment_to_income_penalty_bounds by blast+
  have b3: "min ?s2 0 \<le> ?s3" "?s3 \<le> max ?s2 0"
    using disposable_adequacy_penalty_bounds by blast+
  have "min s 0 \<le> ?s3" "?s3 \<le> max s 0"
    using b1 b2 b3 by linarith+
  with b1 show ?thesis by (simp add: penalised_def)
qed

lemma penalised_mono: "s \<le> s' \<Longrightarrow> penalised n d loan s \<le> penalised n d loan s'"
  by (simp add: penalised_def income_multiple_penalty_mono payment_to_income_penalty_mono
      disposable_adequacy_penalty_mono)

lemma loan_affordability_total:
  "\<exists>s'. loan_affordability fs ind loan s = Inr s' \<and> min s 0 \<le> s' \<and> s' \<le> max s 0"
proof (cases "\<exists>n. net_salary fs = Some n \<and> 0 < n")
  case True
  then obtain n where "net_salary fs = Some n" "0 < n" by blast
  then have "loan_affordability fs ind loan s = Inr (penalised n (disposable_income ind) loan s)"
    by (rule loan_affordability_applied)
  then show ?thesis using penalised_bounds by blast
next
  case False
  then have "net_salary fs = None \<or> (\<exists>n. net_salary fs = Some n \<and> n \<le> 0)"
    by (cases "net_salary fs") (auto simp add: not_less)
  then have "loan_affordability fs ind loan s = Inr s"
    by (rule loan_affordability_skipped)
  then show ?thesis by simp
qed

lemma loan_affordability_mono:
  assumes "s \<le> s'"
    and "loan_affordability fs ind loan s = Inr a"
    and "loan_affordability fs ind loan s' = Inr a'"
  shows "a \<le> a'"
proof (cases "\<exists>n. net_salary fs = Some n \<and> 0 < n")
  case True
  then obtain n where n: "net_salary fs = Some n" "0 < n" by blast
  have "a = penalised n (disposable_income ind) loan s"
      "a' = penalised n (disposable_income ind) loan s'"
    using assms(2,3) loan_affordability_applied [OF n] by simp_all
  then show ?thesis using assms(1) by (simp add: penalised_mono)
next
  case False
  then have "net_salary fs = None \<or> (\<exists>n. net_salary fs = Some n \<and> n \<le> 0)"
    by (cases "net_salary fs") (auto simp add: not_less)
  then have "\<forall>x. loan_affordability fs ind loan x = Inr x"
    by (simp add: loan_affordability_skipped)
  then show ?thesis using assms by simp
qed

subsection \<open>The caps\<close>

lemma garnishment_cap_bounds: "min s 0 \<le> garnishment_cap fs s \<and> garnishment_cap fs s \<le> s"
  by (auto simp add: garnishment_cap_def split: option.split)

lemma garnishment_cap_active:
  "garnishments fs = Some x \<Longrightarrow> 0 < x \<Longrightarrow> garnishment_cap fs s \<le> 30"
  by (simp add: garnishment_cap_def)

lemma garnishment_cap_mono: "s \<le> s' \<Longrightarrow> garnishment_cap fs s \<le> garnishment_cap fs s'"
  by (auto simp add: garnishment_cap_def split: option.split)

lemma debt_cap_bounds: "min s 0 \<le> debt_cap ind s \<and> debt_cap ind s \<le> s"
  by (auto simp add: debt_cap_def split: option.split)

lemma debt_cap_active:
  "loan_to_net_ratio ind = Some l \<Longrightarrow> 0.5 < l \<Longrightarrow> debt_cap ind s \<le> 40"
  by (simp add: debt_cap_def)

lemma debt_cap_mono: "s \<le> s' \<Longrightarrow> debt_cap ind s \<le> debt_cap ind s'"
  by (auto simp add: debt_cap_def split: option.split)

subsection \<open>Every run reaches the critical-information check\<close>

lemma adjust_and_validate_reaches_check:
  assumes "0 \<le> s" and "s \<le> 100"
  shows "\<exists>c. 0 \<le> c \<and> c \<le> 100
           \<and> (\<forall>x. garnishments fs = Some x \<longrightarrow> 0 < x \<longrightarrow> c \<le> 30)
           \<and> (\<forall>l. loan_to_net_ratio (indicators fs) = Some l \<longrightarrow> 0.5 < l \<longrightarrow> c \<le> 40)
           \<and> adjust_and_validate fs loan s = critical_validation fs c"
proof -
  obtain s1 where s1: "loan_affordability fs (indicators fs) loan s = Inr s1"
      "min s 0 \<le> s1" "s1 \<le> max s 0"
    using loan_affordability_total by blast
  let ?s2 = "garnishment_cap fs s1"
  let ?c = "debt_cap (indicators fs) ?s2"
  have eq: "adjust_and_validate fs loan s = critical_validation fs ?c"
    by (simp add: adjust_and_validate_def s1(1) Let_def)
  have r1: "0 \<le> s1" "s1 \<le> 100" using s1 assms by linarith+
  have r2: "0 \<le> ?s2" "?s2 \<le> s1" using garnishment_cap_bounds [of s1 fs] r1 by linarith+
  have r3: "0 \<le> ?c" "?c \<le> ?s2" using debt_cap_bounds [of ?s2 "indicators fs"] r2 by linarith+
  have g: "\<forall>x. garnishments fs = Some x \<longrightarrow> 0 < x \<longrightarrow> ?c \<le> 30"
    using garnishment_cap_active [of fs _ s1] r3 by fastforce
  have l: "\<forall>l. loan_to_net_ratio (indicators fs) = Some l \<longrightarrow> 0.5 < l \<longrightarrow> ?c \<le> 40"
    using debt_cap_active [of "indicators fs" _ ?s2] by blast
  have "0 \<le> ?c" "?c \<le> 100" using r1 r2 r3 by linarith+
  with eq g l show ?thesis by blast
qed

lemma score_from_reaches_check:
  assumes "0 \<le> s" and "s \<le> 20"
  shows "\<exists>c. 0 \<le> c \<and> c \<le> 100
           \<and> (\<forall>x. garnishments (features d) = Some x \<longrightarrow> 0 < x \<longrightarrow> c \<le> 30)
           \<and> (\<forall>l. loan_to_net_ratio (indicators (features d)) = Some l \<longrightarrow> 0.5 < l \<longrightarrow> c \<le> 40)
           \<and> score_from t d loan s = critical_validation (features d) c"
proof -
  obtain p where p: "0 \<le> p" "p \<le> 80" "\<forall>s. remaining_pillars t (features d) s = Inr (s + p)"
    using remaining_pillars_adds by blast
  have "0 \<le> s + p" "s + p \<le> 100" using assms p by linarith+
  then obtain c where "0 \<le> c \<and> c \<le> 100
           \<and> (\<forall>x. garnishments (features d) = Some x \<longrightarrow> 0 < x \<longrightarrow> c \<le> 30)
           \<and> (\<forall>l. loan_to_net_ratio (indicators (features d)) = Some l \<longrightarrow> 0.5 < l \<longrightarrow> c \<le> 40)
           \<and> adjust_and_validate (features d) loan (s + p) = critical_validation (features d) c"
    using adjust_and_validate_reaches_check by blast
  moreover have "score_from t d loan s = adjust_and_validate (features d) loan (s + p)"
    by (simp add: score_from_def p)
  ultimately show ?thesis by auto
qed

lemma calculate_credit_score_reaches_check:
  "\<exists>c. 0 \<le> c \<and> c \<le> 100
       \<and> (\<forall>x. garnishments (features d) = Some x \<longrightarrow> 0 < x \<longrightarrow> c \<le> 30)
       \<and> (\<forall>l. loan_to_net_ratio (indicators (features d)) = Some l \<longrightarrow> 0.5 < l \<longrightarrow> c \<le> 40)
       \<and> calculate_credit_score t d loan = critical_validation (features d) c"
proof -
  obtain p where p: "0 \<le> p" "p \<le> 20" "\<forall>s. income_ratio_rule (features d) s = Inr (s + p)"
    using income_ratio_rule_adds by blast
  have "calculate_credit_score t d loan = score_from t d loan p"
    by (simp add: calculate_credit_score_def p)
  then show ?thesis using score_from_reaches_check [OF p(1,2)] by simp
qed

subsection \<open>A higher running score never ends lower, and gains at most the difference\<close>

lemma income_multiple_penalty_slope:
  "s \<le> s' \<Longrightarrow> income_multiple_penalty r s' \<le> income_multiple_penalty r s + (s' - s)"
  by (auto simp add: income_multiple_penalty_def)

lemma payment_to_income_penalty_slope:
  "s \<le> s' \<Longrightarrow> payment_to_income_penalty r s' \<le> payment_to_income_penalty r s + (s' - s)"
  by (auto simp add: payment_to_income_penalty_def)

lemma disposable_adequacy_penalty_slope:
  "s \<le> s' \<Longrightarrow>
   disposable_adequacy_penalty d m s' \<le> disposable_adequacy_penalty d m s + (s' - s)"
  by (auto simp add: disposable_adequacy_penalty_def split: option.split)

lemma penalised_slope:
  assumes "s \<le> s'"
  shows "penalised n d loan s' \<le> penalised n d loan s + (s' - s)"
proof -
  let ?r1 = "loan / (n * 12)" and ?r2 = "loan * 0.01 / n"
  let ?a = "income_multiple_penalty ?r1 s" and ?a' = "income_multiple_penalty ?r1 s'"
  let ?b = "payment_to_income_penalty ?r2 ?a" and ?b' = "payment_to_income_penalty ?r2 ?a'"
  let ?c = "disposable_adequacy_penalty d (loan * 0.01) ?b"
  let ?c' = "disposable_adequacy_penalty d (loan * 0.01) ?b'"
  have a: "?a \<le> ?a'" "?a' \<le> ?a + (s' - s)"
    using assms income_multiple_penalty_mono income_multiple_penalty_slope by blast+
  have b: "?b \<le> ?b'" "?b' \<le> ?b + (?a' - ?a)"
    using a(1) payment_to_income_penalty_mono payment_to_income_penalty_slope by blast+
  have c: "?c' \<le> ?c + (?b' - ?b)"
    using b(1) disposable_adequacy_penalty_slope by blast
  have "?c' \<le> ?c + (s' - s)" using a b c by linarith
  with a show ?thesis by (simp add: penalised_def)
qed

lemma loan_affordability_both:
  assumes "s \<le> s'"
  shows "\<exists>a a'. loan_affordability fs ind loan s = Inr a
            \<and> loan_affordability fs ind loan s' = Inr a' \<and> a \<le> a' \<and> a' \<le> a + (s' - s)"
proof (cases "\<exists>n. net_salary fs = Some n \<and> 0 < n")
  case True
  then obtain n where n: "net_salary fs = Some n" "0 < n" by blast
  show ?thesis
    using assms loan_affordability_applied [OF n] penalised_mono penalised_slope by simp
next
  case False
  then have "net_salary fs = None \<or> (\<exists>n. net_salary fs = Some n \<and> n \<le> 0)"
    by (cases "net_salary fs") (auto simp add: not_less)
  then have "\<forall>x. loan_affordability fs ind loan x = Inr x"
    by (simp add: loan_affordability_skipped)
  then show ?thesis using assms by simp
qed

lemma garnishment_cap_slope:
  "s \<le> s' \<Longrightarrow> garnishment_cap fs s' \<le> garnishment_cap fs s + (s' - s)"
  by (auto simp add: garnishment_cap_def split: option.split)

lemma debt_cap_slope: "s \<le> s' \<Longrightarrow> debt_cap ind s' \<le> debt_cap ind s + (s' - s)"
  by (auto simp add: debt_cap_def split: option.split)

lemma adjust_and_validate_both:
  assumes "net_salary fs \<noteq> None" and "gross_salary fs \<noteq> None" and "s \<le> s'"
  shows "\<exists>c c'. adjust_and_validate fs loan s = Inr c
            \<and> adjust_and_validate fs loan s' = Inr c' \<and> c \<le> c' \<and> c' \<le> c + (s' - s)"
proof -
  obtain a a' where a: "loan_affordability fs (indicators fs) loan s = Inr a"
      "loan_affordability fs (indicators fs) loan s' = Inr a'" "a \<le> a'" "a' \<le> a + (s' - s)"
    using loan_affordability_both [OF assms(3)] by blast
  let ?g = "garnishment_cap fs a" and ?g' = "garnishment_cap fs a'"
  let ?c = "debt_cap (indicators fs) ?g" and ?c' = "debt_cap (indicators fs) ?g'"
  have g: "?g \<le> ?g'" "?g' \<le> ?g + (a' - a)"
    using a(3) garnishment_cap_mono garnishment_cap_slope by blast+
  have c: "?c \<le> ?c'" "?c' \<le> ?c + (?g' - ?g)"
    using g(1) debt_cap_mono debt_cap_slope by blast+
  have eq: "adjust_and_validate fs loan s = Inr (min ?c 100)"
      "adjust_and_validate fs loan s' = Inr (min ?c' 100)"
    using assms(1,2) by (simp_all add: adjust_and_validate_def a critical_validation_def Let_def)
  have "min ?c 100 \<le> min ?c' 100" "min ?c' 100 \<le> min ?c 100 + (s' - s)"
    using a g c by linarith+
  with eq show ?thesis by simp
qed

section \<open>The claims\<close>

subsection \<open>Unfolding the model on concrete inputs\<close>

lemmas scoring_defs =
  calculate_credit_score_def score_from_def remaining_pillars_def adjust_and_validate_def
  income_ratio_rule_def composition_rule_def stability_rule_def debt_burden_rule_def
  no_garnishments_rule_def disposable_rule_def pension_rule_def tenure_rule_def
  loan_affordability_def garnishment_cap_def debt_cap_def critical_validation_def
  net_to_gross_points_def composition_points_def disposable_points_def
  income_multiple_penalty_def payment_to_income_penalty_def disposable_adequacy_penalty_def
  py_div_def date_portion_def Let_def

lemmas input_defs =
  payslip_def salaries_only_def scenario_a_def no_indicators_def sample_tenure_def no_tenure_def

text \<open>
  Claim C1. \<open>calculate_credit_score\<close> raises the missing-critical-data error exactly when
  \<open>net_salary\<close> or \<open>gross_salary\<close> is \<open>None\<close>; when both are present, whatever
  their values, it returns a score; and no other error (in particular no division by zero)
  is ever raised.
\<close>
theorem calculate_credit_score_error_iff:
  "(calculate_credit_score t d loan = Inl missing_critical_data
      \<longleftrightarrow> net_salary (features d) = None \<or> gross_salary (features d) = None)
   \<and> (net_salary (features d) \<noteq> None \<and> gross_salary (features d) \<noteq> None
        \<longrightarrow> (\<exists>s. calculate_credit_score t d loan = Inr s))
   \<and> (\<forall>e. calculate_credit_score t d loan = Inl e \<longrightarrow> e = missing_critical_data)"
proof -
  obtain c where "calculate_credit_score t d loan = critical_validation (features d) c"
    using calculate_credit_score_reaches_check by blast
  then show ?thesis by (auto simp add: critical_validation_def)
qed

theorem calculate_credit_score_error_iff_witness:
  "calculate_credit_score no_tenure (payslip ((salaries_only 0 3000)\<lparr>net_salary := None\<rparr>)) 100000
     = Inl missing_critical_data
   \<and> (\<exists>s. calculate_credit_score no_tenure (payslip (salaries_only 2000 2500)) 100000 = Inr s)"
  using calculate_credit_score_error_iff
          [of no_tenure "payslip ((salaries_only 0 3000)\<lparr>net_salary := None\<rparr>)" 100000]
        calculate_credit_score_error_iff
          [of no_tenure "payslip (salaries_only 2000 2500)" 100000]
  by (simp add: payslip_def salaries_only_def)

text \<open>
  Claim C2. Whenever both salaries are present, the function returns an integer score
  between 0 and 100.
\<close>
theorem calculate_credit_score_bounded:
  assumes "net_salary (features d) = Some n" and "gross_salary (features d) = Some g"
  shows "\<exists>s. calculate_credit_score t d loan = Inr s \<and> 0 \<le> s \<and> s \<le> 100"
proof -
  obtain c where c: "0 \<le> c" "c \<le> 100"
      "calculate_credit_score t d loan = critical_validation (features d) c"
    using calculate_credit_score_reaches_check by blast
  have "critical_validation (features d) c = Inr (min c 100)"
    using assms by (simp add: critical_validation_def)
  with c show ?thesis by simp
qed

theorem calculate_credit_score_bounded_witness:
  "\<exists>s. calculate_credit_score no_tenure (payslip (salaries_only 2000 2500)) 100000 = Inr s
       \<and> 0 \<le> s \<and> s \<le> 100"
  using calculate_credit_score_bounded
          [of "payslip (salaries_only 2000 2500)" 2000 2500 no_tenure 100000]
  by (simp add: payslip_def salaries_only_def)

text \<open>
  Claim C3. If \<open>garnishments\<close> is present and positive, every returned score is at most 30,
  whatever the other fields, the clock and the requested loan amount are.
\<close>
theorem garnishment_cap_holds:
  assumes "calculate_credit_score t d loan = Inr s"
    and "garnishments (features d) = Some x" and "0 < x"
  shows "s \<le> 30"
proof -
  obtain c where c: "\<forall>x. garnishments (features d) = Some x \<longrightarrow> 0 < x \<longrightarrow> c \<le> 30"
      "calculate_credit_score t d loan = critical_validation (features d) c"
    using calculate_credit_score_reaches_check by blast
  from c(1) assms(2,3) have "c \<le> 30" by blast
  moreover from c(2) assms(1) have "s = min c 100"
    by (simp add: critical_validation_def split: if_splits)
  ultimately show ?thesis by simp
qed

theorem garnishment_cap_holds_witness:
  "calculate_credit_score sample_tenure
     (payslip ((scenario_a ''2020-01-01T09:30:00'')\<lparr>garnishments := Some 50\<rparr>)) 100000 = Inr 30"
proof -
  let ?d = "payslip ((scenario_a ''2020-01-01T09:30:00'')\<lparr>garnishments := Some 50\<rparr>)"
  have g: "garnishments (features ?d) = Some 50"
    by (simp add: payslip_def scenario_a_def)
  have "\<exists>s. calculate_credit_score sample_tenure ?d 100000 = Inr s \<and> 30 \<le> s"
    by (simp add: scoring_defs input_defs)
  then obtain s where s: "calculate_credit_score sample_tenure ?d 100000 = Inr s" "30 \<le> s"
    by blast
  have "s \<le> 30"
    using garnishment_cap_holds [OF s(1) g] by simp
  with s show ?thesis by simp
qed

text \<open>
  Claim C4. If \<open>loan_to_net_ratio\<close> is present and greater than 0.5, every returned score
  is at most 40.
\<close>
theorem debt_burden_cap_holds:
  assumes "calculate_credit_score t d loan = Inr s"
    and "loan_to_net_ratio (indicators (features d)) = Some l" and "0.5 < l"
  shows "s \<le> 40"
proof -
  obtain c where c:
      "\<forall>l. loan_to_net_ratio (indicators (features d)) = Some l \<longrightarrow> 0.5 < l \<longrightarrow> c \<le> 40"
      "calculate_credit_score t d loan = critical_validation (features d) c"
    using calculate_credit_score_reaches_check by blast
  from c(1) assms(2,3) have "c \<le> 40" by blast
  moreover from c(2) assms(1) have "s = min c 100"
    by (simp add: critical_validation_def split: if_splits)
  ultimately show ?thesis by simp
qed

theorem debt_burden_cap_holds_witness:
  "calculate_credit_score sample_tenure
     (payslip ((scenario_a ''2020-01-01'')
        \<lparr>indicators := no_indicators
           \<lparr>loan_to_net_ratio := Some 0.6, disposable_income := Some 2200\<rparr>\<rparr>)) 100000 = Inr 40"
proof -
  let ?d = "payslip ((scenario_a ''2020-01-01'')
        \<lparr>indicators := no_indicators
           \<lparr>loan_to_net_ratio := Some 0.6, disposable_income := Some 2200\<rparr>\<rparr>)"
  have l: "loan_to_net_ratio (indicators (features ?d)) = Some 0.6"
    by (simp add: payslip_def scenario_a_def)
  have "\<exists>s. calculate_credit_score sample_tenure ?d 100000 = Inr s \<and> 40 \<le> s"
    by (simp add: scoring_defs input_defs)
  then obtain s where s: "calculate_credit_score sample_tenure ?d 100000 = Inr s" "40 \<le> s"
    by blast
  have "s \<le> 40"
    using debt_burden_cap_holds [OF s(1) l] by simp
  with s show ?thesis by simp
qed

text \<open>
  Claim C5 (Scenario B). Net salary 2000, gross salary 2500, nothing else present, loan
  amount 100000: the additive score is 15 + 10 = 25, the income-multiple tier \<open>> 3\<close> takes 10,
  the payment-to-income tier \<open>> 0.35\<close> takes another 10 (the ratio is exactly 0.5, which
  is not \<open>> 0.5\<close>), and the function returns 5.
\<close>
theorem scenario_b_score:
  "income_ratio_rule (salaries_only 2000 2500) 0 = Inr 15
   \<and> remaining_pillars t (salaries_only 2000 2500) 15 = Inr 25
   \<and> income_multiple_penalty (100000 / (2000 * 12)) 25 = 15
   \<and> payment_to_income_penalty (100000 * 0.01 / 2000) 15 = 5
   \<and> calculate_credit_score t
       \<lparr>success = ok, user_id = u, loan_id = l, features = salaries_only 2000 2500\<rparr> 100000
     = Inr 5"
  by (simp add: scoring_defs salaries_only_def no_indicators_def)

text \<open>
  Claim C6 (Scenario A). Net salary 5000, gross salary 6000, basic salary 5000, no
  garnishments, loan-to-net ratio 0.05, disposable income 2200, pension 300, a start date
  whose tenure is more than 1095 days, loan amount 100000: the additive score is 90, the
  affordability block leaves it unchanged, neither cap lowers it, and the function returns 90.
\<close>
theorem scenario_a_score:
  assumes "start_date_str \<noteq> []"
    and "t (date_portion start_date_str) = Some tenure" and "1095 < tenure"
  shows "income_ratio_rule (scenario_a start_date_str) 0 = Inr 15
   \<and> remaining_pillars t (scenario_a start_date_str) 15 = Inr 90
   \<and> loan_affordability (scenario_a start_date_str) (indicators (scenario_a start_date_str))
        100000 90 = Inr 90
   \<and> garnishment_cap (scenario_a start_date_str) 90 = 90
   \<and> debt_cap (indicators (scenario_a start_date_str)) 90 = 90
   \<and> calculate_credit_score t
       \<lparr>success = ok, user_id = u, loan_id = l, features = scenario_a start_date_str\<rparr> 100000
     = Inr 90"
proof -
  let ?fs = "scenario_a start_date_str"
  have 1: "income_ratio_rule ?fs 0 = Inr 15"
    by (simp add: scenario_a_def income_ratio_rule_def py_div_def net_to_gross_points_def)
  have 2: "remaining_pillars t ?fs 15 = Inr 90"
    using assms
    by (simp add: scenario_a_def no_indicators_def remaining_pillars_def composition_rule_def
        stability_rule_def debt_burden_rule_def no_garnishments_rule_def disposable_rule_def
        pension_rule_def tenure_rule_def composition_points_def disposable_points_def
        py_div_def Let_def)
  have 3: "loan_affordability ?fs (indicators ?fs) 100000 90 = Inr 90"
    by (simp add: scenario_a_def no_indicators_def loan_affordability_def
        income_multiple_penalty_def payment_to_income_penalty_def
        disposable_adequacy_penalty_def py_div_def Let_def)
  have 4: "garnishment_cap ?fs 90 = 90"
    by (simp add: scenario_a_def garnishment_cap_def)
  have 5: "debt_cap (indicators ?fs) 90 = 90"
    by (simp add: scenario_a_def no_indicators_def debt_cap_def)
  have 6: "critical_validation ?fs 90 = Inr 90"
    by (simp add: scenario_a_def critical_validation_def)
  have "calculate_credit_score t
       \<lparr>success = ok, user_id = u, loan_id = l, features = ?fs\<rparr> 100000 = Inr 90"
    by (simp add: calculate_credit_score_def score_from_def adjust_and_validate_def
        1 2 3 4 5 6 Let_def)
  with 1 2 3 4 5 show ?thesis by simp
qed

theorem scenario_a_score_witness:
  "calculate_credit_score sample_tenure
     \<lparr>success = True, user_id = ''u1'', loan_id = ''l1'',
      features = scenario_a ''2020-01-01T09:30:00''\<rparr> 100000 = Inr 90"
  using scenario_a_score [of "''2020-01-01T09:30:00''" sample_tenure 1461 True "''u1''" "''l1''"]
  by (simp add: sample_tenure_def date_portion_def)

text \<open>
  Claim C7. The running score is never negative at any intermediate step. On a run that
  enters the affordability block (net salary present and positive), let \<open>s\<close> be the additive
  score that enters it and \<open>s1\<close>, \<open>s2\<close>, \<open>s3\<close> the scores after the income-multiple tier,
  the payment-to-income tier and the disposable-income check. Each of them is non-negative,
  each step either leaves the score or replaces it by \<open>max (score - penalty) 0\<close> for its own
  penalty, and the block returns \<open>s3\<close> for a loan of at least 100000 and \<open>s1\<close> otherwise.
\<close>
theorem penalty_steps_never_negative:
  assumes "income_ratio_rule fs 0 = Inr s0" and "remaining_pillars t fs s0 = Inr s"
    and "net_salary fs = Some n" and "0 < n"
  shows "let s1 = income_multiple_penalty (loan / (n * 12)) s;
             s2 = payment_to_income_penalty (loan * 0.01 / n) s1;
             s3 = disposable_adequacy_penalty (disposable_income (indicators fs)) (loan * 0.01) s2
         in 0 \<le> s \<and> 0 \<le> s1 \<and> 0 \<le> s2 \<and> 0 \<le> s3
          \<and> (s1 = s \<or> s1 = max (s - 5) 0 \<or> s1 = max (s - 10) 0
                \<or> s1 = max (s - 20) 0 \<or> s1 = max (s - 30) 0)
          \<and> (s2 = s1 \<or> s2 = max (s1 - 10) 0 \<or> s2 = max (s1 - 20) 0)
          \<and> (s3 = s2 \<or> s3 = max (s2 - 15) 0)
          \<and> loan_affordability fs (indicators fs) loan s
              = Inr (if loan \<ge> 100000 then s3 else s1)"
proof -
  let ?s1 = "income_multiple_penalty (loan / (n * 12)) s"
  let ?s2 = "payment_to_income_penalty (loan * 0.01 / n) ?s1"
  let ?s3 = "disposable_adequacy_penalty (disposable_income (indicators fs)) (loan * 0.01) ?s2"
  obtain p0 where p0: "0 \<le> p0" "\<forall>x. income_ratio_rule fs x = Inr (x + p0)"
    using income_ratio_rule_adds by blast
  obtain p where p: "0 \<le> p" "\<forall>x. remaining_pillars t fs x = Inr (x + p)"
    using remaining_pillars_adds by blast
  have "s0 = p0" "s = s0 + p" using assms(1,2) p0 p by simp_all
  then have s: "0 \<le> s" using p0 p by simp
  have 1: "0 \<le> ?s1"
    using s income_multiple_penalty_bounds [of s "loan / (n * 12)"] by linarith
  have 2: "0 \<le> ?s2"
    using 1 payment_to_income_penalty_bounds [of ?s1 "loan * 0.01 / n"] by linarith
  have 3: "0 \<le> ?s3"
    using 2 disposable_adequacy_penalty_bounds
              [of ?s2 "disposable_income (indicators fs)" "loan * 0.01"]
    by linarith
  have t1: "?s1 = s \<or> ?s1 = max (s - 5) 0 \<or> ?s1 = max (s - 10) 0
                \<or> ?s1 = max (s - 20) 0 \<or> ?s1 = max (s - 30) 0"
    by (simp add: income_multiple_penalty_def)
  have t2: "?s2 = ?s1 \<or> ?s2 = max (?s1 - 10) 0 \<or> ?s2 = max (?s1 - 20) 0"
    by (simp add: payment_to_income_penalty_def)
  have t3: "?s3 = ?s2 \<or> ?s3 = max (?s2 - 15) 0"
    by (simp add: disposable_adequacy_penalty_def split: option.split)
  have eq: "loan_affordability fs (indicators fs) loan s
              = Inr (if loan \<ge> 100000 then ?s3 else ?s1)"
    using loan_affordability_applied [OF assms(3,4)] by (simp add: penalised_def)
  show ?thesis
    unfolding Let_def using s 1 2 3 t1 t2 t3 eq by blast
qed

theorem penalty_steps_never_negative_witness:
  "income_multiple_penalty (100000 / (1000 * 12)) 15 = 0
   \<and> payment_to_income_penalty (100000 * 0.01 / 1000) 0 = 0
   \<and> loan_affordability (salaries_only 1000 2500) (indicators (salaries_only 1000 2500))
        100000 15 = Inr 0"
proof -
  let ?fs = "salaries_only 1000 2500"
  have h1: "income_ratio_rule ?fs 0 = Inr 5"
    by (simp add: scoring_defs input_defs)
  have h2: "remaining_pillars no_tenure ?fs 5 = Inr 15"
    by (simp add: scoring_defs input_defs)
  have h3: "net_salary ?fs = Some 1000"
    by (simp add: salaries_only_def)
  have e1: "income_multiple_penalty (100000 / (1000 * 12)) 15 = 0"
    by (simp add: income_multiple_penalty_def)
  have e2: "payment_to_income_penalty (100000 * 0.01 / 1000) 0 = 0"
    by (simp add: payment_to_income_penalty_def)
  have e3: "disposable_adequacy_penalty (disposable_income (indicators ?fs)) (100000 * 0.01) 0 = 0"
    by (simp add: disposable_adequacy_penalty_def salaries_only_def no_indicators_def)
  show ?thesis
    using penalty_steps_never_negative [OF h1 h2 h3, of 100000] e1 e2 e3
    by (simp add: Let_def)
qed

text \<open>
  Claim C8. The points of the net-to-gross rule are monotone in the ratio: for two inputs
  that differ only in \<open>net_salary\<close>, with \<open>gross_salary\<close> present and positive, the input
  with the larger ratio \<open>net_salary / gross_salary\<close> gets at least as many points.
\<close>
theorem income_ratio_contribution_monotone:
  assumes "gross_salary fs = Some g" and "0 < g" and "n1 / g \<le> n2 / g"
  shows "\<exists>p1 p2. income_ratio_rule (fs\<lparr>net_salary := Some n1\<rparr>) 0 = Inr p1
           \<and> income_ratio_rule (fs\<lparr>net_salary := Some n2\<rparr>) 0 = Inr p2
           \<and> p1 \<le> p2"
proof -
  have "income_ratio_rule (fs\<lparr>net_salary := Some n1\<rparr>) 0 = Inr (0 + net_to_gross_points (n1 / g))"
    using assms(1,2) by (intro income_ratio_rule_paid) simp_all
  moreover
  have "income_ratio_rule (fs\<lparr>net_salary := Some n2\<rparr>) 0 = Inr (0 + net_to_gross_points (n2 / g))"
    using assms(1,2) by (intro income_ratio_rule_paid) simp_all
  moreover have "net_to_gross_points (n1 / g) \<le> net_to_gross_points (n2 / g)"
    using assms(3) by (rule net_to_gross_points_mono)
  ultimately show ?thesis by simp
qed

theorem income_ratio_contribution_monotone_witness:
  "income_ratio_rule ((salaries_only 0 100)\<lparr>net_salary := Some 84\<rparr>) 0 = Inr 15
   \<and> income_ratio_rule ((salaries_only 0 100)\<lparr>net_salary := Some 85\<rparr>) 0 = Inr 20
   \<and> (\<exists>p1 p2. income_ratio_rule ((salaries_only 0 100)\<lparr>net_salary := Some 84\<rparr>) 0 = Inr p1
           \<and> income_ratio_rule ((salaries_only 0 100)\<lparr>net_salary := Some 85\<rparr>) 0 = Inr p2
           \<and> p1 \<le> p2)"
proof -
  have g: "gross_salary (salaries_only 0 100) = Some 100" "(0::real) < 100"
      "(84::real) / 100 \<le> 85 / 100"
    by (simp_all add: salaries_only_def)
  have "income_ratio_rule ((salaries_only 0 100)\<lparr>net_salary := Some 84\<rparr>) 0 = Inr 15"
      "income_ratio_rule ((salaries_only 0 100)\<lparr>net_salary := Some 85\<rparr>) 0 = Inr 20"
    by (simp_all add: salaries_only_def income_ratio_rule_def py_div_def net_to_gross_points_def)
  then show ?thesis
    using income_ratio_contribution_monotone [OF g] by blast
qed

text \<open>
  Claim C9, as stated, fails for the returned score. With net salary 1000, gross salary 2500,
  nothing else present and a loan of 100000, the net-to-gross rule adds 5 points, yet
  the returned score is 0, and it is 0 as well when the function body is run without that
  rule's points: the first penalty floors 15, respectively 10, at 0.
\<close>
theorem income_ratio_points_absorbed_counterexample:
  "income_ratio_rule (salaries_only 1000 2500) 0 = Inr 5
   \<and> calculate_credit_score no_tenure (payslip (salaries_only 1000 2500)) 100000 = Inr 0
   \<and> score_from no_tenure (payslip (salaries_only 1000 2500)) 100000 0 = Inr 0"
  by (simp add: scoring_defs input_defs)

text \<open>
  Claim C9, amended. With both salaries present and \<open>gross_salary > 0\<close>, the net-to-gross
  rule adds \<open>p\<close> points to the running score, \<open>p\<close> one of 5, 10, 15, 20; the additive score
  before the affordability adjustment is exactly \<open>p\<close> higher than without the rule's points;
  the returned score \<open>c\<close> is never below the score \<open>c0\<close> returned without them, and at
  most \<open>p\<close> above it.
\<close>
theorem income_ratio_rule_awards_points:
  assumes "net_salary (features d) = Some n" and "gross_salary (features d) = Some g"
    and "0 < g"
  shows "\<exists>p a c c0. p \<in> {5, 10, 15, 20}
           \<and> (\<forall>s. income_ratio_rule (features d) s = Inr (s + p))
           \<and> remaining_pillars t (features d) 0 = Inr a
           \<and> remaining_pillars t (features d) p = Inr (a + p)
           \<and> score_from t d loan 0 = Inr c0
           \<and> calculate_credit_score t d loan = Inr c
           \<and> c0 \<le> c \<and> c \<le> c0 + p"
proof -
  let ?p = "net_to_gross_points (n / g)"
  have p: "?p \<in> {5, 10, 15, 20}" by (rule net_to_gross_points_cases)
  then have p0: "0 \<le> ?p" by auto
  have r: "\<forall>s. income_ratio_rule (features d) s = Inr (s + ?p)"
    using assms by (simp add: income_ratio_rule_paid)
  obtain q where q: "\<forall>s. remaining_pillars t (features d) s = Inr (s + q)"
    using remaining_pillars_adds by blast
  have "q \<le> ?p + q" using p0 by simp
  then obtain c0 c where c: "adjust_and_validate (features d) loan q = Inr c0"
      "adjust_and_validate (features d) loan (?p + q) = Inr c" "c0 \<le> c" "c \<le> c0 + (?p + q - q)"
    using adjust_and_validate_both [of "features d" q "?p + q" loan] assms(1,2) by auto
  have "score_from t d loan 0 = Inr c0"
    by (simp add: score_from_def q c)
  moreover have "calculate_credit_score t d loan = Inr c"
    by (simp add: calculate_credit_score_def score_from_def r q c)
  moreover have "remaining_pillars t (features d) 0 = Inr q"
      "remaining_pillars t (features d) ?p = Inr (q + ?p)"
    by (simp_all add: q)
  moreover have "c \<le> c0 + ?p" using c(4) by simp
  ultimately show ?thesis using p r c(3) by blast
qed

theorem income_ratio_rule_awards_points_witness:
  "\<exists>p a c c0. p \<in> {5, 10, 15, 20}
           \<and> (\<forall>s. income_ratio_rule (salaries_only 1000 2500) s = Inr (s + p))
           \<and> remaining_pillars no_tenure (salaries_only 1000 2500) 0 = Inr a
           \<and> remaining_pillars no_tenure (salaries_only 1000 2500) p = Inr (a + p)
           \<and> score_from no_tenure (payslip (salaries_only 1000 2500)) 100000 0 = Inr c0
           \<and> calculate_credit_score no_tenure (payslip (salaries_only 1000 2500)) 100000 = Inr c
           \<and> c0 \<le> c \<and> c \<le> c0 + p"
  using income_ratio_rule_awards_points
          [of "payslip (salaries_only 1000 2500)" 1000 2500 no_tenure 100000]
  by (simp add: payslip_def salaries_only_def)

text \<open>
  Claim C10. With both salaries present, whatever their sign, the function returns a score
  and no division by zero occurs. With \<open>gross_salary \<le> 0\<close> the two ratio rules of Pillar 1
  leave the running score unchanged; with \<open>net_salary \<le> 0\<close> the disposable-income rule, the
  pension rule and the whole affordability block leave it unchanged.
\<close>
theorem nonpositive_salaries_total:
  assumes "net_salary (features d) = Some n" and "gross_salary (features d) = Some g"
  shows "(\<exists>c. calculate_credit_score t d loan = Inr c)
     \<and> calculate_credit_score t d loan \<noteq> Inl ZeroDivisionError
     \<and> (g \<le> 0 \<longrightarrow> income_ratio_rule (features d) s = Inr s
                \<and> composition_rule (features d) s = Inr s)
     \<and> (n \<le> 0 \<longrightarrow> disposable_rule (features d) ind s = Inr s
                \<and> pension_rule (features d) s = Inr s
                \<and> loan_affordability (features d) ind loan s = Inr s)"
proof -
  obtain c where "calculate_credit_score t d loan = critical_validation (features d) c"
    using calculate_credit_score_reaches_check by blast
  then have "calculate_credit_score t d loan = Inr (min c 100)"
    using assms by (simp add: critical_validation_def)
  then have 1: "(\<exists>c. calculate_credit_score t d loan = Inr c)
     \<and> calculate_credit_score t d loan \<noteq> Inl ZeroDivisionError"
    by simp
  have 2: "g \<le> 0 \<longrightarrow> income_ratio_rule (features d) s = Inr s
                \<and> composition_rule (features d) s = Inr s"
    using assms by (simp add: income_ratio_rule_def composition_rule_def split: option.split)
  have 3: "n \<le> 0 \<longrightarrow> disposable_rule (features d) ind s = Inr s
                \<and> pension_rule (features d) s = Inr s
                \<and> loan_affordability (features d) ind loan s = Inr s"
    using assms
    by (simp add: disposable_rule_def pension_rule_def loan_affordability_def
        split: option.split)
  from 1 2 3 show ?thesis by blast
qed

theorem nonpositive_salaries_total_witness:
  "calculate_credit_score no_tenure (payslip (salaries_only 0 0)) 100000 = Inr 10
   \<and> income_ratio_rule (salaries_only 0 0) 0 = Inr 0
   \<and> loan_affordability (salaries_only 0 0) no_indicators 100000 10 = Inr 10"
proof -
  let ?d = "payslip (salaries_only 0 0)"
  have h: "net_salary (features ?d) = Some 0" "gross_salary (features ?d) = Some 0"
    by (simp_all add: payslip_def salaries_only_def)
  have f: "features ?d = salaries_only 0 0"
    by (simp add: payslip_def)
  have "\<exists>c. calculate_credit_score no_tenure ?d 100000 = Inr c"
    using nonpositive_salaries_total [OF h] by blast
  moreover have "\<forall>c. calculate_credit_score no_tenure ?d 100000 = Inr c \<longrightarrow> c = 10"
    by (simp add: scoring_defs input_defs)
  ultimately have "calculate_credit_score no_tenure ?d 100000 = Inr 10" by blast
  moreover have "income_ratio_rule (salaries_only 0 0) 0 = Inr 0"
    using nonpositive_salaries_total [OF h, of no_tenure 100000 0] f by simp
  moreover have "loan_affordability (salaries_only 0 0) no_indicators 100000 10 = Inr 10"
    using nonpositive_salaries_total [OF h, of no_tenure 100000 10 no_indicators] f by simp
  ultimately show ?thesis by blast
qed

end
